theory Spec2Isabelle
  imports Main "HOL-Library.Word"
begin

section \<open>JavaScript strings\<close>

text \<open>
  A JavaScript string is a sequence of UTF-16 code units. \<open>js\<close> embeds an ASCII
  literal of the source, one code unit for each character.
\<close>

type_synonym jsstring = "16 word list"

definition js :: "string \<Rightarrow> jsstring" where
  "js s = map (\<lambda>c. of_nat (of_char c)) s"

text \<open>
  \<open>String.prototype.trim\<close> strips the code units of ECMAScript's WhiteSpace and
  LineTerminator productions from both ends: TAB, LF, VT, FF, CR, SPACE, NBSP,
  U+1680, U+2000 to U+200A, U+2028, U+2029, U+202F, U+205F, U+3000 and U+FEFF.
\<close>

definition is_ws :: "16 word \<Rightarrow> bool" where
  "is_ws c \<longleftrightarrow>
     c = 0x0009 \<or> c = 0x000A \<or> c = 0x000B \<or> c = 0x000C \<or> c = 0x000D \<or>
     c = 0x0020 \<or> c = 0x00A0 \<or> c = 0x1680 \<or> (0x2000 \<le> c \<and> c \<le> 0x200A) \<or>
     c = 0x2028 \<or> c = 0x2029 \<or> c = 0x202F \<or> c = 0x205F \<or> c = 0x3000 \<or>
     c = 0xFEFF"

definition trim :: "jsstring \<Rightarrow> jsstring" where
  "trim s = rev (dropWhile is_ws (rev (dropWhile is_ws s)))"

text \<open>A string is blank when it is empty or holds white space only.\<close>

definition whitespace_only :: "jsstring \<Rightarrow> bool" where
  "whitespace_only s = list_all is_ws s"

text \<open>\<open>s.includes(t)\<close>: \<open>t\<close> occurs in \<open>s\<close> as a contiguous run of code units.\<close>

fun starts_with :: "jsstring \<Rightarrow> jsstring \<Rightarrow> bool" where
  "starts_with s [] = True"
| "starts_with [] (y # t) = False"
| "starts_with (x # s) (y # t) = (x = y \<and> starts_with s t)"

fun str_includes :: "jsstring \<Rightarrow> jsstring \<Rightarrow> bool" where
  "str_includes [] t = (t = [])"
| "str_includes (x # s) t = (starts_with (x # s) t \<or> str_includes s t)"

section \<open>The analysis client (gemini.ts)\<close>

text \<open>
  Every exception of the source is an \<open>Error\<close> carrying a message; the provider's
  library may also throw a value that is no \<open>Error\<close>.
\<close>

datatype thrown = Error jsstring | NonError

text \<open>
  The provider's handle holds the key it was built from, and a model handle
  the key and the model's name.
\<close>

datatype GoogleGenerativeAI = GoogleGenerativeAI jsstring

datatype GenerativeModel = GenerativeModel jsstring jsstring

fun getGenerativeModel :: "GoogleGenerativeAI \<Rightarrow> jsstring \<Rightarrow> GenerativeModel" where
  "getGenerativeModel (GoogleGenerativeAI apiKey) name = GenerativeModel apiKey name"

record GeminiClient =
  genAI :: "GoogleGenerativeAI option"
  model :: "GenerativeModel option"

definition new_GeminiClient :: GeminiClient where
  "new_GeminiClient = \<lparr>genAI = None, model = None\<rparr>"

text \<open>
  What one round trip to the provider gives: \<open>generateContent\<close>, the awaited
  \<open>response\<close> and \<open>text()\<close> either produce the payload or one of them throws.
\<close>

datatype outcome = Payload jsstring | Rejects thrown

text \<open>An element of the panel's document tree: tag, class, text, children.\<close>

datatype el = El string string jsstring "el list"

text \<open>
  The effects of a run, in the order they happen: a notification, a network
  call (the model handle and the prompt sent), a line on the developer
  console, the panel being revealed, and the panel's content after one of its
  operations.
\<close>

datatype event =
    Notice jsstring
  | GenerateContent GenerativeModel jsstring
  | ConsoleError jsstring thrown
  | RevealLeaf
  | Rendered el

text \<open>
  What lies outside the repository: the provider's answer to a call, the
  host's markdown renderer (the elements it puts into its container, and what
  it throws if it fails) and \<open>new Date().toLocaleString()\<close>.
\<close>

record env =
  provider :: "GenerativeModel \<Rightarrow> jsstring \<Rightarrow> outcome"
  renderer :: "jsstring \<Rightarrow> el list \<times> thrown option"
  now :: jsstring

definition initialize :: "jsstring \<Rightarrow> GeminiClient \<Rightarrow> (thrown + unit) \<times> GeminiClient" where
  "initialize apiKey this =
     (if apiKey = [] \<or> trim apiKey = [] then
        (Inl (Error (js ''API key is required'')), this)
      else
        let g = GoogleGenerativeAI apiKey
        in (Inr (),
            this\<lparr>genAI := Some g,
                 model := Some (getGenerativeModel g (js ''gemini-1.5-flash''))\<rparr>))"

definition isInitialized :: "GeminiClient \<Rightarrow> bool" where
  "isInitialized this = (model this \<noteq> None)"

text \<open>
  The template literal of \<open>analyzeNote\<close>:
  \<open>${systemPrompt}\n\n---\n\nAnalyze the following note:\n\n${noteContent}\<close>.
\<close>

definition separator :: jsstring where
  "separator = [0x0A, 0x0A] @ js ''---'' @ [0x0A, 0x0A]"

definition instruction_header :: jsstring where
  "instruction_header = js ''Analyze the following note:'' @ [0x0A, 0x0A]"

definition fullPrompt :: "jsstring \<Rightarrow> jsstring \<Rightarrow> jsstring" where
  "fullPrompt systemPrompt noteContent =
     systemPrompt @ separator @ instruction_header @ noteContent"

text \<open>The \<open>catch\<close> block of \<open>analyzeNote\<close>: what it throws for what it caught.\<close>

fun analysis_catch :: "thrown \<Rightarrow> thrown" where
  "analysis_catch (Error message) =
     (if str_includes message (js ''API_KEY_INVALID'') then
        Error (js ''Invalid API key. Please check your settings.'')
      else if str_includes message (js ''QUOTA_EXCEEDED'') then
        Error (js ''API quota exceeded. Please try again later.'')
      else Error (js ''Analysis failed: '' @ message))"
| "analysis_catch NonError = Error (js ''Unknown error occurred during analysis'')"

text \<open>The \<open>try\<close> block: the value returned, or what was thrown inside it.\<close>

definition analysis_try :: "env \<Rightarrow> GenerativeModel \<Rightarrow> jsstring \<Rightarrow> thrown + jsstring" where
  "analysis_try e m prompt =
     (case provider e m prompt of
        Rejects error \<Rightarrow> Inl error
      | Payload text \<Rightarrow>
          if text = [] then Inl (Error (js ''Empty response from Gemini API''))
          else Inr text)"

definition analyzeNote ::
  "env \<Rightarrow> jsstring \<Rightarrow> jsstring \<Rightarrow> GeminiClient \<Rightarrow>
   (thrown + jsstring) \<times> GeminiClient \<times> event list" where
  "analyzeNote e systemPrompt noteContent this =
     (case model this of
        None \<Rightarrow>
          (Inl (Error (js ''Gemini client not initialized. Please set your API key in settings.'')),
           this, [])
      | Some m \<Rightarrow>
          if noteContent = [] \<or> trim noteContent = [] then
            (Inl (Error (js ''Note content is empty'')), this, [])
          else
            let prompt = fullPrompt systemPrompt noteContent
            in (case analysis_try e m prompt of
                  Inr text \<Rightarrow> (Inr text, this, [GenerateContent m prompt])
                | Inl error \<Rightarrow>
                    (Inl (analysis_catch error), this,
                     [GenerateContent m prompt,
                      ConsoleError (js ''Gemini API error:'') error])))"

section \<open>The result panel (LensView.ts)\<close>

text \<open>
  \<open>empty()\<close> removes every child of an element, its text included;
  \<open>createEl\<close> appends a new child at the end.
\<close>

fun empty_el :: "el \<Rightarrow> el" where
  "empty_el (El t c x ch) = El t c [] []"

fun createEl :: "el \<Rightarrow> el \<Rightarrow> el" where
  "createEl child (El t c x ch) = El t c x (ch @ [child])"

fun children :: "el \<Rightarrow> el list" where
  "children (El t c x ch) = ch"

text \<open>
  The view's state is its content element; the header that \<open>onOpen\<close> puts
  beside it is never touched again and is left out.
\<close>

record LensView =
  contentEl :: el

definition showWelcomeMessage :: "LensView \<Rightarrow> LensView" where
  \<open>showWelcomeMessage this =
     this\<lparr>contentEl :=
       createEl
         (El ''p'' ''forest-mini-welcome''
            (js ''Select a note and use '' @ [0x22] @ js ''Analyze with Mephisto'' @ [0x22] @
             js '' command to see analysis results here.'') [])
         (empty_el (contentEl this))\<rparr>\<close>

definition onOpen :: LensView where
  "onOpen = showWelcomeMessage \<lparr>contentEl = El ''div'' ''forest-mini-content'' [] []\<rparr>"

definition showLoading :: "LensView \<Rightarrow> LensView" where
  "showLoading this =
     this\<lparr>contentEl :=
       createEl
         (El ''div'' ''forest-mini-loading'' []
            [El ''p'' [] ([0xD83E, 0xDD14] @ js '' Mephisto is analyzing...'') []])
         (empty_el (contentEl this))\<rparr>"

text \<open>
  \<open>showAnalysis\<close> empties the content and creates the timestamp and the result
  element before it awaits the renderer, which fills the result element and
  may throw.
\<close>

definition showAnalysis :: "env \<Rightarrow> jsstring \<Rightarrow> LensView \<Rightarrow> (thrown + unit) \<times> LensView" where
  "showAnalysis e analysisText this =
     (let timestamp =
            El ''div'' ''forest-mini-timestamp'' []
              [El ''small'' [] (js ''Analysis: '' @ now e) []];
          c1 = createEl timestamp (empty_el (contentEl this));
          (rendered, failure) = renderer e analysisText;
          c2 = createEl (El ''div'' ''forest-mini-result'' [] rendered) c1
      in ((case failure of None \<Rightarrow> Inr () | Some t \<Rightarrow> Inl t), this\<lparr>contentEl := c2\<rparr>))"

definition showError :: "jsstring \<Rightarrow> LensView \<Rightarrow> LensView" where
  "showError errorMessage this =
     this\<lparr>contentEl :=
       createEl
         (El ''div'' ''forest-mini-error'' []
            [El ''p'' [] ([0x26A0, 0xFE0F] @ js '' Error'') [],
             El ''p'' [] errorMessage []])
         (empty_el (contentEl this))\<rparr>"

text \<open>
  The four variants of the panel's state. Every element that an operation
  puts under the content element carries a class of its own, which tells the
  variant it belongs to; \<open>variants_present\<close> collects the variants of the
  children of the content element.
\<close>

datatype variant = Welcome | Loading | Result | Failure

fun variant_of :: "el \<Rightarrow> variant option" where
  "variant_of (El t c x ch) =
     (if c = ''forest-mini-welcome'' then Some Welcome
      else if c = ''forest-mini-loading'' then Some Loading
      else if c = ''forest-mini-timestamp'' then Some Result
      else if c = ''forest-mini-result'' then Some Result
      else if c = ''forest-mini-error'' then Some Failure
      else None)"

definition variants_present :: "LensView \<Rightarrow> variant option set" where
  "variants_present v = set (map variant_of (children (contentEl v)))"

text \<open>The operations of the panel, and a sequence of them run in order.\<close>

datatype panel_op = ShowWelcome | ShowLoading | ShowResult jsstring | ShowError jsstring

fun panel_step :: "env \<Rightarrow> panel_op \<Rightarrow> LensView \<Rightarrow> LensView" where
  "panel_step e ShowWelcome v = showWelcomeMessage v"
| "panel_step e ShowLoading v = showLoading v"
| "panel_step e (ShowResult text) v = snd (showAnalysis e text v)"
| "panel_step e (ShowError message) v = showError message v"

fun variant_shown :: "panel_op \<Rightarrow> variant" where
  "variant_shown ShowWelcome = Welcome"
| "variant_shown ShowLoading = Loading"
| "variant_shown (ShowResult text) = Result"
| "variant_shown (ShowError message) = Failure"

definition panel_run :: "env \<Rightarrow> panel_op list \<Rightarrow> LensView \<Rightarrow> LensView" where
  "panel_run e ops v = fold (panel_step e) ops v"

section \<open>Settings (settings.ts) and their persistence\<close>

text \<open>
  A settings object is the map of its own properties, from their names to
  the string values the interface declares; a declared field that is absent
  reads as \<open>undefined\<close>.
\<close>

type_synonym jsobject = "string \<rightharpoonup> jsstring"

definition DEFAULT_SETTINGS :: jsobject where
  "DEFAULT_SETTINGS =
     [''geminiApiKey'' \<mapsto> [],
      ''mephistoPrompt'' \<mapsto>
        js ''You are Mephisto, a ruthlessly honest critic and meta-cognitive analyst.'' @ [0x0A] @
        js ''Your role is to analyze the user'' @ [0x27] @
        js ''s note with brutal honesty and provide insights on:'' @ [0x0A] @
        js ''- Logic flaws and weak reasoning'' @ [0x0A] @
        js ''- Unexamined assumptions'' @ [0x0A] @
        js ''- Missing perspectives'' @ [0x0A] @
        js ''- Cognitive biases'' @ [0x0A] @
        js ''- Areas requiring deeper thinking'' @ [0x0A, 0x0A] @
        js ''Be direct, critical, and constructive. Focus on improving the quality of thinking.'']"

text \<open>
  \<open>Object.assign(target, ...sources)\<close> copies the properties of each source
  over the target, in order; a source that is \<open>null\<close> is skipped. Each property
  is written by assignment, not defined: a source property named \<open>__proto__\<close>
  reaches the setter that every object inherits from \<open>Object.prototype\<close>, which
  ignores a string, so the target gets no property of that name.
  \<open>own_writes\<close> is what a source leaves on the target.
\<close>

definition own_writes :: "jsobject \<Rightarrow> jsobject" where
  "own_writes s = (\<lambda>k. if k = ''__proto__'' then None else s k)"

fun Object_assign :: "jsobject \<Rightarrow> jsobject option list \<Rightarrow> jsobject" where
  "Object_assign target [] = target"
| "Object_assign target (None # sources) = Object_assign target sources"
| "Object_assign target (Some s # sources) = Object_assign (target ++ own_writes s) sources"

section \<open>The plugin (main.ts)\<close>

text \<open>
  The host's workspace as the plugin sees it: the views of the leaves of type
  \<open>LENS_VIEW_TYPE\<close>, in the order \<open>getLeavesOfType\<close> returns them, and whether
  \<open>getRightLeaf\<close> has a leaf to give.
\<close>

record Workspace =
  leaves :: "LensView list"
  rightLeaf :: bool

text \<open>
  \<open>data\<close> is what the host's persistence holds for the plugin: \<open>loadData\<close>
  reads it (\<open>null\<close> when nothing was saved) and \<open>saveData\<close> replaces it.
\<close>

record ForestMiniPlugin =
  settings :: jsobject
  geminiClient :: GeminiClient
  workspace :: Workspace
  data :: "jsobject option"

definition loadData :: "ForestMiniPlugin \<Rightarrow> jsobject option" where
  "loadData this = data this"

definition saveData :: "jsobject \<Rightarrow> ForestMiniPlugin \<Rightarrow> ForestMiniPlugin" where
  "saveData obj this = this\<lparr>data := Some obj\<rparr>"

definition loadSettings :: "ForestMiniPlugin \<Rightarrow> ForestMiniPlugin" where
  "loadSettings this =
     this\<lparr>settings := Object_assign Map.empty [Some DEFAULT_SETTINGS, loadData this]\<rparr>"

definition saveSettings :: "ForestMiniPlugin \<Rightarrow> ForestMiniPlugin" where
  "saveSettings this = saveData (settings this) this"

text \<open>
  \<open>setViewState\<close> on the right leaf makes the host build the registered view
  and open it, so the leaf shows the welcome message.
\<close>

definition activateLensView :: "ForestMiniPlugin \<Rightarrow> ForestMiniPlugin \<times> event list" where
  "activateLensView this =
     (case leaves (workspace this) of
        leaf # rest \<Rightarrow> (this, [RevealLeaf])
      | [] \<Rightarrow>
          if rightLeaf (workspace this) then
            (this\<lparr>workspace := (workspace this)\<lparr>leaves := [onOpen]\<rparr>\<rparr>, [RevealLeaf])
          else (this, []))"

text \<open>A property read off the settings, in a template literal.\<close>

definition template :: "jsstring option \<Rightarrow> jsstring" where
  "template v = (case v of None \<Rightarrow> js ''undefined'' | Some s \<Rightarrow> s)"

text \<open>The \<open>catch\<close> block of \<open>analyzeCurrentNote\<close>.\<close>

definition errorMessage_of :: "thrown \<Rightarrow> jsstring" where
  "errorMessage_of error = (case error of Error m \<Rightarrow> m | NonError \<Rightarrow> js ''Unknown error'')"

definition command_catch :: "thrown \<Rightarrow> LensView \<Rightarrow> LensView \<times> event list" where
  "command_catch error lensView =
     (let errorMessage = errorMessage_of error;
          v = showError errorMessage lensView
      in (v, [ConsoleError (js ''Analysis error:'') error,
              Rendered (contentEl v),
              Notice (js ''Analysis failed: '' @ errorMessage)]))"

text \<open>The \<open>try\<close> block, from the point where the panel shows the loading state.\<close>

definition command_try ::
  "env \<Rightarrow> jsstring \<Rightarrow> jsstring \<Rightarrow> GeminiClient \<Rightarrow> LensView \<Rightarrow>
   GeminiClient \<times> LensView \<times> event list" where
  "command_try e prompt noteContent client lensView =
     (if noteContent = [] \<or> trim noteContent = [] then
        (let v = showError (js ''Current note is empty'') lensView
         in (client, v, [Rendered (contentEl v), Notice (js ''Current note is empty'')]))
      else
        (case analyzeNote e prompt noteContent client of
           (Inl error, client', evs) \<Rightarrow>
             (let (v, evs') = command_catch error lensView in (client', v, evs @ evs'))
         | (Inr analysis, client', evs) \<Rightarrow>
             (case showAnalysis e analysis lensView of
                (Inr u, v) \<Rightarrow>
                  (client', v,
                   evs @ [Rendered (contentEl v), Notice (js ''Analysis complete!'')])
              | (Inl error, v) \<Rightarrow>
                  (let (v', evs') = command_catch error v
                   in (client', v', evs @ [Rendered (contentEl v)] @ evs')))))"

text \<open>
  The command: the editor's text is \<open>noteContent\<close>. The client and the view
  of the first leaf are objects the plugin and the workspace share, so what
  the command does to them is written back.
\<close>

definition analyzeCurrentNote ::
  "env \<Rightarrow> jsstring \<Rightarrow> ForestMiniPlugin \<Rightarrow> ForestMiniPlugin \<times> event list" where
  "analyzeCurrentNote e noteContent this =
     (case settings this ''geminiApiKey'' of
        None \<Rightarrow> (this, [Notice (js ''Please set your Gemini API key in settings first.'')])
      | Some apiKey \<Rightarrow>
          if apiKey = [] then
            (this, [Notice (js ''Please set your Gemini API key in settings first.'')])
          else
            (case (if isInitialized (geminiClient this) then (Inr (), geminiClient this)
                   else initialize apiKey (geminiClient this)) of
               (Inl error, client) \<Rightarrow>
                 (this, [Notice (js ''Failed to initialize Gemini client. Check your API key.'')])
             | (Inr u, client) \<Rightarrow>
                 (let (this1, evs1) = activateLensView (this\<lparr>geminiClient := client\<rparr>)
                  in (case leaves (workspace this1) of
                        [] \<Rightarrow> (this1, evs1 @ [Notice (js ''Failed to open Lens View'')])
                      | lensView # rest \<Rightarrow>
                          (let v1 = showLoading lensView;
                               evs2 = [Rendered (contentEl v1),
                                       Notice (js ''Analyzing with Mephisto...'')];
                               (client', v2, evs3) =
                                 command_try e (template (settings this1 ''mephistoPrompt''))
                                   noteContent client v1
                           in (this1\<lparr>geminiClient := client',
                                     workspace := (workspace this1)\<lparr>leaves := v2 # rest\<rparr>\<rparr>,
                               evs1 @ evs2 @ evs3))))))"

text \<open>
  \<open>onload\<close>, as far as it touches the settings and the client: the settings
  are loaded, and the client is initialized when a key is stored.
\<close>

definition onload :: "ForestMiniPlugin \<Rightarrow> ForestMiniPlugin \<times> event list" where
  "onload this =
     (let this1 = (loadSettings this)\<lparr>geminiClient := new_GeminiClient\<rparr>
      in (case settings this1 ''geminiApiKey'' of
            None \<Rightarrow> (this1, [])
          | Some apiKey \<Rightarrow>
              if apiKey = [] then (this1, [])
              else (case initialize apiKey (geminiClient this1) of
                      (Inl error, client) \<Rightarrow>
                        (this1, [ConsoleError (js ''Failed to initialize Gemini client:'') error])
                    | (Inr u, client) \<Rightarrow> (this1\<lparr>geminiClient := client\<rparr>, []))))"

text \<open>The projections of a run's effects.\<close>

fun is_notice :: "event \<Rightarrow> bool" where
  "is_notice (Notice m) = True"
| "is_notice _ = False"

fun is_rendered :: "event \<Rightarrow> bool" where
  "is_rendered (Rendered c) = True"
| "is_rendered _ = False"

definition notices :: "event list \<Rightarrow> event list" where
  "notices evs = filter is_notice evs"

definition panel_states :: "event list \<Rightarrow> event list" where
  "panel_states evs = filter is_rendered evs"

text \<open>The errors of the client, as the source throws them.\<close>

definition ConfigurationError :: thrown where
  "ConfigurationError = Error (js ''API key is required'')"

definition NotInitializedError :: thrown where
  "NotInitializedError =
     Error (js ''Gemini client not initialized. Please set your API key in settings.'')"

definition EmptyInputError :: thrown where
  "EmptyInputError = Error (js ''Note content is empty'')"

definition EmptyResponseError :: thrown where
  "EmptyResponseError = Error (js ''Empty response from Gemini API'')"

definition InvalidApiKeyError :: thrown where
  "InvalidApiKeyError = Error (js ''Invalid API key. Please check your settings.'')"

definition AnalysisFailedError :: "jsstring \<Rightarrow> thrown" where
  "AnalysisFailedError message = Error (js ''Analysis failed: '' @ message)"

text \<open>The network calls among the effects of a run.\<close>

fun is_request :: "event \<Rightarrow> bool" where
  "is_request (GenerateContent m p) = True"
| "is_request _ = False"

definition requests :: "event list \<Rightarrow> event list" where
  "requests evs = filter is_request evs"

text \<open>
  Two notions for stating what the command does: the client the command works
  with once its initialization step has passed, and the view it finds once
  \<open>activateLensView\<close> has run with a panel at hand.
\<close>

definition ready_client :: "jsstring \<Rightarrow> GeminiClient \<Rightarrow> GeminiClient" where
  "ready_client apiKey c = (if isInitialized c then c else snd (initialize apiKey c))"

definition lens_view :: "ForestMiniPlugin \<Rightarrow> LensView" where
  "lens_view this = (case leaves (workspace this) of v # rest \<Rightarrow> v | [] \<Rightarrow> onOpen)"

definition other_leaves :: "ForestMiniPlugin \<Rightarrow> LensView list" where
  "other_leaves this = (case leaves (workspace this) of v # rest \<Rightarrow> rest | [] \<Rightarrow> [])"

definition panel_available :: "ForestMiniPlugin \<Rightarrow> bool" where
  "panel_available this = (leaves (workspace this) \<noteq> [] \<or> rightLeaf (workspace this))"

section \<open>Properties of the client\<close>

lemma dropWhile_all: "(\<forall>x\<in>set (dropWhile P xs). P x) \<longleftrightarrow> (\<forall>x\<in>set xs. P x)"
  by (induction xs) auto

lemma trim_empty_iff: "trim s = [] \<longleftrightarrow> whitespace_only s"
  by (simp add: trim_def whitespace_only_def dropWhile_all list_all_iff)

lemma blank_iff: "(s = [] \<or> trim s = []) \<longleftrightarrow> whitespace_only s"
  by (auto simp: trim_empty_iff whitespace_only_def)

lemma js_simps: "js [] = []" "js (c # s) = of_nat (of_char c) # js s"
  by (simp_all add: js_def)

lemma whitespace_only_simps:
  "whitespace_only [] = True" "whitespace_only (c # s) = (is_ws c \<and> whitespace_only s)"
  by (simp_all add: whitespace_only_def)

lemma initialize_blank:
  "whitespace_only apiKey \<Longrightarrow> initialize apiKey this = (Inl (Error (js ''API key is required'')), this)"
  by (simp add: initialize_def blank_iff)

lemma initialize_key:
  "\<not> whitespace_only apiKey \<Longrightarrow>
   initialize apiKey this =
     (Inr (), this\<lparr>genAI := Some (GoogleGenerativeAI apiKey),
                   model := Some (GenerativeModel apiKey (js ''gemini-1.5-flash''))\<rparr>)"
  by (simp add: initialize_def blank_iff)

lemma analyzeNote_client: "fst (snd (analyzeNote e sp nc this)) = this"
  by (simp add: analyzeNote_def Let_def split: option.splits sum.splits)

lemma analyzeNote_run:
  "model this = Some m \<Longrightarrow> \<not> whitespace_only nc \<Longrightarrow>
   analyzeNote e sp nc this =
     (case analysis_try e m (fullPrompt sp nc) of
        Inr text \<Rightarrow> (Inr text, this, [GenerateContent m (fullPrompt sp nc)])
      | Inl error \<Rightarrow>
          (Inl (analysis_catch error), this,
           [GenerateContent m (fullPrompt sp nc),
            ConsoleError (js ''Gemini API error:'') error]))"
  by (simp add: analyzeNote_def blank_iff Let_def)

text \<open>
  C6: on a client that is not initialized, \<open>analyzeNote\<close> fails with the
  not-initialized error whatever the prompt and the note are, the client is
  left as it was, and no network call is made.
\<close>

theorem analyze_before_initialize:
  "\<not> isInitialized c \<Longrightarrow>
   analyzeNote e systemPrompt noteContent c = (Inl NotInitializedError, c, []) \<and>
   requests (snd (snd (analyzeNote e systemPrompt noteContent c))) = []"
  by (simp add: analyzeNote_def isInitialized_def NotInitializedError_def requests_def)

theorem analyze_before_initialize_witness:
  "\<not> isInitialized new_GeminiClient \<and>
   analyzeNote \<lparr>provider = (\<lambda>m p. Payload (js ''ok'')), renderer = (\<lambda>t. ([], None)), now = []\<rparr>
     (js ''prompt'') (js ''hello'') new_GeminiClient
     = (Inl NotInitializedError, new_GeminiClient, [])"
proof -
  have h: "\<not> isInitialized new_GeminiClient"
    by (simp add: isInitialized_def new_GeminiClient_def)
  show ?thesis
    using h analyze_before_initialize [OF h] by simp
qed

text \<open>
  C7: \<open>initialize\<close> fails with the configuration error for the empty string and
  for every key of white space only, and the client stays as it was (a new
  client stays uninitialized); with any other key it succeeds and
  \<open>isInitialized\<close> is true afterwards.
\<close>

theorem initialize_checks_key:
  assumes "whitespace_only blank" and "\<not> whitespace_only key"
  shows "initialize [] c = (Inl ConfigurationError, c) \<and>
         initialize blank c = (Inl ConfigurationError, c) \<and>
         \<not> isInitialized (snd (initialize blank new_GeminiClient)) \<and>
         fst (initialize key c) = Inr () \<and>
         isInitialized (snd (initialize key c))"
  using assms
  by (simp add: initialize_blank initialize_key whitespace_only_simps ConfigurationError_def
      isInitialized_def new_GeminiClient_def)

theorem initialize_checks_key_witness:
  "whitespace_only (js ''   '') \<and> \<not> whitespace_only (js ''validkey'') \<and>
   initialize (js ''   '') new_GeminiClient = (Inl ConfigurationError, new_GeminiClient) \<and>
   fst (initialize (js ''validkey'') new_GeminiClient) = Inr () \<and>
   isInitialized (snd (initialize (js ''validkey'') new_GeminiClient))"
proof -
  have b: "whitespace_only (js ''   '')"
    by (simp add: js_simps whitespace_only_simps is_ws_def)
  have k: "\<not> whitespace_only (js ''validkey'')"
    by (simp add: js_simps whitespace_only_simps is_ws_def)
  show ?thesis
    using b k initialize_checks_key [OF b k, of new_GeminiClient] by simp
qed

text \<open>
  C9: when \<open>analyzeNote\<close> fails, the client after the call is the client before
  it: \<open>genAI\<close>, \<open>model\<close> and the answer of \<open>isInitialized\<close> are unchanged.
\<close>

theorem analyze_failure_keeps_client:
  "fst (analyzeNote e systemPrompt noteContent c) = Inl err \<Longrightarrow>
   fst (snd (analyzeNote e systemPrompt noteContent c)) = c \<and>
   genAI (fst (snd (analyzeNote e systemPrompt noteContent c))) = genAI c \<and>
   model (fst (snd (analyzeNote e systemPrompt noteContent c))) = model c \<and>
   isInitialized (fst (snd (analyzeNote e systemPrompt noteContent c))) = isInitialized c"
  by (simp add: analyzeNote_client)

theorem analyze_failure_keeps_client_witness:
  "fst (analyzeNote
      \<lparr>provider = (\<lambda>m p. Rejects NonError), renderer = (\<lambda>t. ([], None)), now = []\<rparr>
      (js ''prompt'') (js ''hello'')
      (snd (initialize (js ''validkey'') new_GeminiClient))) =
     Inl (Error (js ''Unknown error occurred during analysis'')) \<and>
   fst (snd (analyzeNote
      \<lparr>provider = (\<lambda>m p. Rejects NonError), renderer = (\<lambda>t. ([], None)), now = []\<rparr>
      (js ''prompt'') (js ''hello'')
      (snd (initialize (js ''validkey'') new_GeminiClient)))) =
     snd (initialize (js ''validkey'') new_GeminiClient) \<and>
   isInitialized (fst (snd (analyzeNote
      \<lparr>provider = (\<lambda>m p. Rejects NonError), renderer = (\<lambda>t. ([], None)), now = []\<rparr>
      (js ''prompt'') (js ''hello'')
      (snd (initialize (js ''validkey'') new_GeminiClient)))))"
proof -
  have k: "\<not> whitespace_only (js ''validkey'')"
    by (simp add: js_simps whitespace_only_simps is_ws_def)
  have n: "\<not> whitespace_only (js ''hello'')"
    by (simp add: js_simps whitespace_only_simps is_ws_def)
  have i: "isInitialized (snd (initialize (js ''validkey'') new_GeminiClient))"
    by (simp add: initialize_key [OF k] isInitialized_def)
  have f: "fst (analyzeNote
      \<lparr>provider = (\<lambda>m p. Rejects NonError), renderer = (\<lambda>t. ([], None)), now = []\<rparr>
      (js ''prompt'') (js ''hello'')
      (snd (initialize (js ''validkey'') new_GeminiClient))) =
     Inl (Error (js ''Unknown error occurred during analysis''))"
    using n by (simp add: initialize_key [OF k] analyzeNote_run analysis_try_def)
  note t = analyze_failure_keeps_client [OF f]
  show ?thesis
    using f i t [THEN conjunct1] by simp
qed


text \<open>
  C3, amended: on an initialized client and a note that is neither empty nor
  white space only, \<open>analyzeNote\<close> makes exactly one network call, and the
  prompt it sends is the system prompt, the separator, the instruction header
  \<open>Analyze the following note:\<close> and the note, in this order.
\<close>

theorem analyze_sends_one_prompt:
  assumes "isInitialized c" and "\<not> whitespace_only noteContent"
  shows "requests (snd (snd (analyzeNote e systemPrompt noteContent c))) =
           [GenerateContent (the (model c))
              (systemPrompt @ [0x0A, 0x0A] @ js ''---'' @ [0x0A, 0x0A] @
               js ''Analyze the following note:'' @ [0x0A, 0x0A] @ noteContent)]"
proof -
  from assms(1) obtain m where m: "model c = Some m"
    by (auto simp: isInitialized_def)
  show ?thesis
    using assms(2) m
    by (simp add: analyzeNote_run requests_def fullPrompt_def separator_def
        instruction_header_def split: sum.splits)
qed

theorem analyze_sends_one_prompt_witness:
  "isInitialized (snd (initialize (js ''validkey'') new_GeminiClient)) \<and>
   \<not> whitespace_only (js ''hello'') \<and>
   requests (snd (snd (analyzeNote
       \<lparr>provider = (\<lambda>m p. Payload (js ''ok'')), renderer = (\<lambda>t. ([], None)), now = []\<rparr>
       (js ''prompt'') (js ''hello'') (snd (initialize (js ''validkey'') new_GeminiClient))))) =
     [GenerateContent (GenerativeModel (js ''validkey'') (js ''gemini-1.5-flash''))
        (js ''prompt'' @ [0x0A, 0x0A] @ js ''---'' @ [0x0A, 0x0A] @
         js ''Analyze the following note:'' @ [0x0A, 0x0A] @ js ''hello'')]"
proof -
  have k: "\<not> whitespace_only (js ''validkey'')"
    by (simp add: js_simps whitespace_only_simps is_ws_def)
  have i: "isInitialized (snd (initialize (js ''validkey'') new_GeminiClient))"
    by (simp add: initialize_key [OF k] isInitialized_def)
  have n: "\<not> whitespace_only (js ''hello'')"
    by (simp add: js_simps whitespace_only_simps is_ws_def)
  show ?thesis
    using i n analyze_sends_one_prompt [OF i n]
    by (simp add: initialize_key [OF k])
qed

lemma analyzeNote_blank:
  "model this = Some m \<Longrightarrow> whitespace_only nc \<Longrightarrow>
   analyzeNote e sp nc this = (Inl (Error (js ''Note content is empty'')), this, [])"
  by (simp add: analyzeNote_def blank_iff)

text \<open>
  C3 as stated fails for a note that is not empty but holds white space only:
  for the note of one space, an initialized client makes no network call.
\<close>

theorem analyze_blank_note_counterexample:
  "js '' '' \<noteq> [] \<and>
   isInitialized (snd (initialize (js ''validkey'') new_GeminiClient)) \<and>
   requests (snd (snd (analyzeNote
       \<lparr>provider = (\<lambda>m p. Payload (js ''ok'')), renderer = (\<lambda>t. ([], None)), now = []\<rparr>
       (js ''prompt'') (js '' '') (snd (initialize (js ''validkey'') new_GeminiClient))))) = []"
proof -
  have k: "\<not> whitespace_only (js ''validkey'')"
    by (simp add: js_simps whitespace_only_simps is_ws_def)
  have b: "whitespace_only (js '' '')"
    by (simp add: js_simps whitespace_only_simps is_ws_def)
  have n: "js '' '' \<noteq> []"
    by (simp add: js_simps)
  show ?thesis
    using b n
    by (simp add: initialize_key [OF k] isInitialized_def analyzeNote_blank requests_def)
qed

text \<open>
  C1: when the provider returns an empty payload, the empty-response error is
  thrown inside the \<open>try\<close> block and caught by the \<open>catch\<close> block of the same
  function, so the caller sees the analysis-failed error wrapping its message,
  and not the empty-response error.
\<close>

theorem empty_payload_surfaces_wrapped:
  "fst (analyzeNote
       \<lparr>provider = (\<lambda>m p. Payload []), renderer = (\<lambda>t. ([], None)), now = []\<rparr>
       (js ''prompt'') (js ''hello'') (snd (initialize (js ''validkey'') new_GeminiClient))) =
     Inl (AnalysisFailedError (js ''Empty response from Gemini API'')) \<and>
   AnalysisFailedError (js ''Empty response from Gemini API'') \<noteq> EmptyResponseError"
proof -
  have k: "\<not> whitespace_only (js ''validkey'')"
    by (simp add: js_simps whitespace_only_simps is_ws_def)
  have n: "\<not> whitespace_only (js ''hello'')"
    by (simp add: js_simps whitespace_only_simps is_ws_def)
  have a: "\<not> str_includes (js ''Empty response from Gemini API'') (js ''API_KEY_INVALID'')"
    by (simp add: js_simps)
  have q: "\<not> str_includes (js ''Empty response from Gemini API'') (js ''QUOTA_EXCEEDED'')"
    by (simp add: js_simps)
  have d: "AnalysisFailedError (js ''Empty response from Gemini API'') \<noteq> EmptyResponseError"
    by (simp add: AnalysisFailedError_def EmptyResponseError_def js_simps)
  have "fst (analyzeNote
       \<lparr>provider = (\<lambda>m p. Payload []), renderer = (\<lambda>t. ([], None)), now = []\<rparr>
       (js ''prompt'') (js ''hello'') (snd (initialize (js ''validkey'') new_GeminiClient))) =
     Inl (AnalysisFailedError (js ''Empty response from Gemini API''))"
    using a q n
    by (simp add: initialize_key [OF k] analyzeNote_run analysis_try_def AnalysisFailedError_def)
  with d show ?thesis by simp
qed

section \<open>Properties of the command\<close>

lemma ready_client_initialized:
  "isInitialized c \<or> \<not> whitespace_only k \<Longrightarrow> isInitialized (ready_client k c)"
  by (auto simp: ready_client_def initialize_key isInitialized_def)

text \<open>
  The state C10 starts from is the one \<open>onload\<close> leaves when the persisted key
  holds white space only: the key is kept and the client is not initialized.
\<close>

lemma onload_whitespace_key:
  assumes "data this = Some blob" and "blob ''geminiApiKey'' = Some k"
    and "k \<noteq> []" and "whitespace_only k"
  shows "settings (fst (onload this)) ''geminiApiKey'' = Some k \<and>
         \<not> isInitialized (geminiClient (fst (onload this)))"
  using assms
  by (simp add: onload_def loadSettings_def loadData_def own_writes_def initialize_blank
      isInitialized_def new_GeminiClient_def Let_def)

lemma activateLensView_available:
  "panel_available this \<Longrightarrow>
   activateLensView this =
     (this\<lparr>workspace := (workspace this)\<lparr>leaves := lens_view this # other_leaves this\<rparr>\<rparr>,
      [RevealLeaf])"
  by (auto simp: activateLensView_def panel_available_def lens_view_def other_leaves_def
      split: list.splits)

lemma command_try_blank:
  "whitespace_only doc \<Longrightarrow>
   command_try e prompt doc client v =
     (client, showError (js ''Current note is empty'') v,
      [Rendered (contentEl (showError (js ''Current note is empty'') v)),
       Notice (js ''Current note is empty'')])"
  by (simp add: command_try_def blank_iff Let_def)

lemma command_try_failure:
  "\<not> whitespace_only doc \<Longrightarrow> fst (analyzeNote e prompt doc client) = Inl err \<Longrightarrow>
   command_try e prompt doc client v =
     (client, showError (errorMessage_of err) v,
      snd (snd (analyzeNote e prompt doc client)) @
      [ConsoleError (js ''Analysis error:'') err,
       Rendered (contentEl (showError (errorMessage_of err) v)),
       Notice (js ''Analysis failed: '' @ errorMessage_of err)])"
  using analyzeNote_client [of e prompt doc client]
  by (cases "analyzeNote e prompt doc client")
     (simp add: command_try_def blank_iff command_catch_def Let_def)

lemma analyzeCurrentNote_loading:
  assumes "settings this ''geminiApiKey'' = Some k" and "k \<noteq> []"
    and "isInitialized (geminiClient this) \<or> \<not> whitespace_only k"
    and "panel_available this"
  shows "analyzeCurrentNote e doc this =
     (let client = ready_client k (geminiClient this);
          v1 = showLoading (lens_view this);
          r = command_try e (template (settings this ''mephistoPrompt'')) doc client v1
      in (this\<lparr>geminiClient := fst r,
               workspace := (workspace this)\<lparr>leaves := fst (snd r) # other_leaves this\<rparr>\<rparr>,
          [RevealLeaf, Rendered (contentEl v1), Notice (js ''Analyzing with Mephisto...'')]
          @ snd (snd r)))"
proof -
  have av: "panel_available (this\<lparr>geminiClient := c\<rparr>)" for c
    using assms(4) by (simp add: panel_available_def)
  have lv: "lens_view (this\<lparr>geminiClient := c\<rparr>) = lens_view this" for c
    by (simp add: lens_view_def)
  have ol: "other_leaves (this\<lparr>geminiClient := c\<rparr>) = other_leaves this" for c
    by (simp add: other_leaves_def)
  show ?thesis
  proof (cases "isInitialized (geminiClient this)")
    case True
    then show ?thesis
      using assms(1,2)
      by (simp add: analyzeCurrentNote_def ready_client_def activateLensView_available [OF av]
          lv ol Let_def split: prod.splits)
  next
    case False
    with assms(3) have "\<not> whitespace_only k" by simp
    then show ?thesis
      using assms(1,2) False
      by (simp add: analyzeCurrentNote_def ready_client_def initialize_key
          activateLensView_available [OF av] lv ol Let_def split: prod.splits)
  qed
qed


text \<open>
  C10: with a stored key that is not empty but holds white space only, and a
  client that is not initialized, the command passes the empty-key guard and
  stops at the initialization step: its only effect is the notice
  \<open>Failed to initialize Gemini client. Check your API key.\<close>, which is not the
  missing-key notice; the plugin and its workspace are as before, the panel
  renders nothing and no network call is made.
\<close>

theorem whitespace_key_stops_at_initialize:
  assumes "settings this ''geminiApiKey'' = Some k" and "k \<noteq> []" and "whitespace_only k"
    and "\<not> isInitialized (geminiClient this)"
  shows "analyzeCurrentNote e doc this =
           (this, [Notice (js ''Failed to initialize Gemini client. Check your API key.'')]) \<and>
         js ''Failed to initialize Gemini client. Check your API key.'' \<noteq>
           js ''Please set your Gemini API key in settings first.'' \<and>
         workspace (fst (analyzeCurrentNote e doc this)) = workspace this \<and>
         panel_states (snd (analyzeCurrentNote e doc this)) = [] \<and>
         requests (snd (analyzeCurrentNote e doc this)) = []"
proof -
  have run: "analyzeCurrentNote e doc this =
      (this, [Notice (js ''Failed to initialize Gemini client. Check your API key.'')])"
    using assms by (simp add: analyzeCurrentNote_def initialize_blank)
  have "js ''Failed to initialize Gemini client. Check your API key.'' \<noteq>
      js ''Please set your Gemini API key in settings first.''"
    by (simp add: js_simps)
  with run show ?thesis
    by (simp add: panel_states_def requests_def)
qed

theorem whitespace_key_stops_at_initialize_witness:
  "[''geminiApiKey'' \<mapsto> js ''  ''] ''geminiApiKey'' = Some (js ''  '') \<and> js ''  '' \<noteq> [] \<and>
   whitespace_only (js ''  '') \<and> \<not> isInitialized new_GeminiClient \<and>
   snd (analyzeCurrentNote
     \<lparr>provider = (\<lambda>m p. Payload (js ''ok'')), renderer = (\<lambda>t. ([], None)), now = []\<rparr>
     (js ''hello'')
     \<lparr>settings = [''geminiApiKey'' \<mapsto> js ''  ''], geminiClient = new_GeminiClient,
      workspace = \<lparr>leaves = [onOpen], rightLeaf = True\<rparr>, data = None\<rparr>) =
   [Notice (js ''Failed to initialize Gemini client. Check your API key.'')]"
proof -
  let ?p = "\<lparr>settings = [''geminiApiKey'' \<mapsto> js ''  ''], geminiClient = new_GeminiClient,
      workspace = \<lparr>leaves = [onOpen], rightLeaf = True\<rparr>, data = None\<rparr>"
  have s: "settings ?p ''geminiApiKey'' = Some (js ''  '')" by simp
  have n: "js ''  '' \<noteq> []" by (simp add: js_simps)
  have w: "whitespace_only (js ''  '')"
    by (simp add: js_simps whitespace_only_simps is_ws_def)
  have u: "\<not> isInitialized (geminiClient ?p)"
    by (simp add: isInitialized_def new_GeminiClient_def)
  show ?thesis
    using n w u whitespace_key_stops_at_initialize [OF s n w u] by simp
qed

lemma showLoading_children:
  "children (contentEl (showLoading v)) =
     [El ''div'' ''forest-mini-loading'' []
        [El ''p'' [] ([0xD83E, 0xDD14] @ js '' Mephisto is analyzing...'') []]]"
  by (cases "contentEl v") (simp add: showLoading_def)

lemma showError_children:
  "children (contentEl (showError m v)) =
     [El ''div'' ''forest-mini-error'' []
        [El ''p'' [] ([0x26A0, 0xFE0F] @ js '' Error'') [], El ''p'' [] m []]]"
  by (cases "contentEl v") (simp add: showError_def)

lemma showWelcomeMessage_children:
  "children (contentEl (showWelcomeMessage v)) =
     [El ''p'' ''forest-mini-welcome''
        (js ''Select a note and use '' @ [0x22] @ js ''Analyze with Mephisto'' @ [0x22] @
         js '' command to see analysis results here.'') []]"
  by (cases "contentEl v") (simp add: showWelcomeMessage_def)

lemma showAnalysis_children:
  "children (contentEl (snd (showAnalysis e text v))) =
     [El ''div'' ''forest-mini-timestamp'' [] [El ''small'' [] (js ''Analysis: '' @ now e) []],
      El ''div'' ''forest-mini-result'' [] (fst (renderer e text))]"
  by (cases "contentEl v") (simp add: showAnalysis_def Let_def split: prod.splits)

lemma analyzeNote_quiet:
  "notices (snd (snd (analyzeNote e sp nc c))) = [] \<and>
   panel_states (snd (snd (analyzeNote e sp nc c))) = []"
  by (simp add: analyzeNote_def notices_def panel_states_def Let_def
      split: option.splits sum.splits)

lemma analyzeCurrentNote_blank:
  assumes "settings this ''geminiApiKey'' = Some k" and "k \<noteq> []"
    and "isInitialized (geminiClient this) \<or> \<not> whitespace_only k"
    and "panel_available this" and "whitespace_only doc"
  shows "analyzeCurrentNote e doc this =
     (this\<lparr>geminiClient := ready_client k (geminiClient this),
           workspace := (workspace this)
             \<lparr>leaves := showError (js ''Current note is empty'') (showLoading (lens_view this))
                        # other_leaves this\<rparr>\<rparr>,
      [RevealLeaf, Rendered (contentEl (showLoading (lens_view this))),
       Notice (js ''Analyzing with Mephisto...''),
       Rendered (contentEl (showError (js ''Current note is empty'') (showLoading (lens_view this)))),
       Notice (js ''Current note is empty'')])"
  by (simp add: analyzeCurrentNote_loading [OF assms(1-4)] command_try_blank [OF assms(5)] Let_def)

lemma analyzeCurrentNote_failure:
  assumes "settings this ''geminiApiKey'' = Some k" and "k \<noteq> []"
    and "isInitialized (geminiClient this) \<or> \<not> whitespace_only k"
    and "panel_available this" and "\<not> whitespace_only doc"
    and "fst (analyzeNote e (template (settings this ''mephistoPrompt'')) doc
               (ready_client k (geminiClient this))) = Inl err"
  shows "analyzeCurrentNote e doc this =
     (this\<lparr>geminiClient := ready_client k (geminiClient this),
           workspace := (workspace this)
             \<lparr>leaves := showError (errorMessage_of err) (showLoading (lens_view this))
                        # other_leaves this\<rparr>\<rparr>,
      [RevealLeaf, Rendered (contentEl (showLoading (lens_view this))),
       Notice (js ''Analyzing with Mephisto...'')] @
      snd (snd (analyzeNote e (template (settings this ''mephistoPrompt'')) doc
                  (ready_client k (geminiClient this)))) @
      [ConsoleError (js ''Analysis error:'') err,
       Rendered (contentEl (showError (errorMessage_of err) (showLoading (lens_view this)))),
       Notice (js ''Analysis failed: '' @ errorMessage_of err)])"
  by (simp add: analyzeCurrentNote_loading [OF assms(1-4)]
      command_try_failure [OF assms(5,6)] Let_def)

lemma analyzeNote_rejected:
  assumes "model c = Some m" and "\<not> whitespace_only nc"
    and "provider e m (fullPrompt sp nc) = Rejects x"
  shows "analyzeNote e sp nc c =
     (Inl (analysis_catch x), c,
      [GenerateContent m (fullPrompt sp nc), ConsoleError (js ''Gemini API error:'') x])"
  using assms by (simp add: analyzeNote_run analysis_try_def)

text \<open>
  C5, amended: when the stored key is not empty, the client is initialized or
  the key is not white space only, a panel is at hand, and the document is
  empty or white space only, the panel shows the loading state and then the
  error state with \<open>Current note is empty\<close>, the notice \<open>Current note is empty\<close>
  is emitted, and no network call is made.
\<close>

theorem blank_note_shows_error:
  assumes "settings this ''geminiApiKey'' = Some k" and "k \<noteq> []"
    and "isInitialized (geminiClient this) \<or> \<not> whitespace_only k"
    and "panel_available this" and "whitespace_only doc"
  shows "snd (analyzeCurrentNote e doc this) =
           [RevealLeaf,
            Rendered (contentEl (showLoading (lens_view this))),
            Notice (js ''Analyzing with Mephisto...''),
            Rendered (contentEl (showError (js ''Current note is empty'')
                                   (showLoading (lens_view this)))),
            Notice (js ''Current note is empty'')] \<and>
         variants_present (showLoading (lens_view this)) = {Some Loading} \<and>
         variants_present (showError (js ''Current note is empty'')
                             (showLoading (lens_view this))) = {Some Failure} \<and>
         leaves (workspace (fst (analyzeCurrentNote e doc this))) =
           showError (js ''Current note is empty'') (showLoading (lens_view this))
             # other_leaves this \<and>
         requests (snd (analyzeCurrentNote e doc this)) = []"
  by (simp add: analyzeCurrentNote_blank [OF assms] variants_present_def
      showLoading_children showError_children requests_def)

theorem blank_note_shows_error_witness:
  "[''geminiApiKey'' \<mapsto> js ''validkey''] ''geminiApiKey'' = Some (js ''validkey'') \<and>
   js ''validkey'' \<noteq> [] \<and> \<not> whitespace_only (js ''validkey'') \<and>
   whitespace_only (js ''  '' @ [0x0A] @ js ''  '') \<and>
   snd (analyzeCurrentNote
     \<lparr>provider = (\<lambda>m p. Payload (js ''ok'')), renderer = (\<lambda>t. ([], None)), now = []\<rparr>
     (js ''  '' @ [0x0A] @ js ''  '')
     \<lparr>settings = [''geminiApiKey'' \<mapsto> js ''validkey''], geminiClient = new_GeminiClient,
      workspace = \<lparr>leaves = [], rightLeaf = True\<rparr>, data = None\<rparr>) =
   [RevealLeaf,
    Rendered (contentEl (showLoading onOpen)),
    Notice (js ''Analyzing with Mephisto...''),
    Rendered (contentEl (showError (js ''Current note is empty'') (showLoading onOpen))),
    Notice (js ''Current note is empty'')]"
proof -
  let ?p = "\<lparr>settings = [''geminiApiKey'' \<mapsto> js ''validkey''], geminiClient = new_GeminiClient,
      workspace = \<lparr>leaves = [], rightLeaf = True\<rparr>, data = None\<rparr>"
  have s: "settings ?p ''geminiApiKey'' = Some (js ''validkey'')" by simp
  have n: "js ''validkey'' \<noteq> []" by (simp add: js_simps)
  have k: "\<not> whitespace_only (js ''validkey'')"
    by (simp add: js_simps whitespace_only_simps is_ws_def)
  have i: "isInitialized (geminiClient ?p) \<or> \<not> whitespace_only (js ''validkey'')"
    using k by simp
  have a: "panel_available ?p" by (simp add: panel_available_def)
  have d: "whitespace_only (js ''  '' @ [0x0A] @ js ''  '')"
    by (simp add: js_simps whitespace_only_simps is_ws_def)
  have l: "lens_view ?p = onOpen" by (simp add: lens_view_def)
  show ?thesis
    using n k d blank_note_shows_error [OF s n i a d] by (simp add: l)
qed

text \<open>
  C5 as stated fails when the key that is set holds white space only and the
  client is not initialized: for the document of Scenario B the command stops
  at the initialization step, and the panel renders nothing.
\<close>

theorem blank_note_whitespace_key_counterexample:
  "[''geminiApiKey'' \<mapsto> js ''  ''] ''geminiApiKey'' = Some (js ''  '') \<and> js ''  '' \<noteq> [] \<and>
   whitespace_only (js ''  '' @ [0x0A] @ js ''  '') \<and>
   snd (analyzeCurrentNote
     \<lparr>provider = (\<lambda>m p. Payload (js ''ok'')), renderer = (\<lambda>t. ([], None)), now = []\<rparr>
     (js ''  '' @ [0x0A] @ js ''  '')
     \<lparr>settings = [''geminiApiKey'' \<mapsto> js ''  ''], geminiClient = new_GeminiClient,
      workspace = \<lparr>leaves = [onOpen], rightLeaf = True\<rparr>, data = None\<rparr>) =
   [Notice (js ''Failed to initialize Gemini client. Check your API key.'')] \<and>
   panel_states (snd (analyzeCurrentNote
     \<lparr>provider = (\<lambda>m p. Payload (js ''ok'')), renderer = (\<lambda>t. ([], None)), now = []\<rparr>
     (js ''  '' @ [0x0A] @ js ''  '')
     \<lparr>settings = [''geminiApiKey'' \<mapsto> js ''  ''], geminiClient = new_GeminiClient,
      workspace = \<lparr>leaves = [onOpen], rightLeaf = True\<rparr>, data = None\<rparr>)) = []"
proof -
  have n: "js ''  '' \<noteq> []" by (simp add: js_simps)
  have w: "whitespace_only (js ''  '')"
    by (simp add: js_simps whitespace_only_simps is_ws_def)
  have d: "whitespace_only (js ''  '' @ [0x0A] @ js ''  '')"
    by (simp add: js_simps whitespace_only_simps is_ws_def)
  have u: "\<not> isInitialized new_GeminiClient"
    by (simp add: isInitialized_def new_GeminiClient_def)
  show ?thesis
    using n w d u
    by (simp add: analyzeCurrentNote_def initialize_blank panel_states_def)
qed

text \<open>
  C2, amended: when the analysis call fails in a run of the command, the
  effects after the call are a line on the console, the panel's error state
  showing the error's message, and the notice \<open>Analysis failed: \<close> followed by
  that message; the call itself adds no notice and no rendering. When the
  provider rejects with a message that includes \<open>API_KEY_INVALID\<close>, the message
  is \<open>Invalid API key. Please check your settings.\<close>
\<close>

theorem analysis_failure_effects:
  assumes "settings this ''geminiApiKey'' = Some k" and "k \<noteq> []"
    and "isInitialized (geminiClient this) \<or> \<not> whitespace_only k"
    and "panel_available this" and "\<not> whitespace_only doc"
    and "fst (analyzeNote e (template (settings this ''mephistoPrompt'')) doc
               (ready_client k (geminiClient this))) = Inl err"
  shows "snd (analyzeCurrentNote e doc this) =
           [RevealLeaf, Rendered (contentEl (showLoading (lens_view this))),
            Notice (js ''Analyzing with Mephisto...'')] @
           snd (snd (analyzeNote e (template (settings this ''mephistoPrompt'')) doc
                       (ready_client k (geminiClient this)))) @
           [ConsoleError (js ''Analysis error:'') err,
            Rendered (contentEl (showError (errorMessage_of err) (showLoading (lens_view this)))),
            Notice (js ''Analysis failed: '' @ errorMessage_of err)] \<and>
         notices (snd (analyzeCurrentNote e doc this)) =
           [Notice (js ''Analyzing with Mephisto...''),
            Notice (js ''Analysis failed: '' @ errorMessage_of err)] \<and>
         panel_states (snd (analyzeCurrentNote e doc this)) =
           [Rendered (contentEl (showLoading (lens_view this))),
            Rendered (contentEl (showError (errorMessage_of err) (showLoading (lens_view this))))] \<and>
         variants_present (showError (errorMessage_of err) (showLoading (lens_view this))) =
           {Some Failure} \<and>
         (\<forall>m message.
            model (ready_client k (geminiClient this)) = Some m \<and>
            provider e m (fullPrompt (template (settings this ''mephistoPrompt'')) doc) =
              Rejects (Error message) \<and>
            str_includes message (js ''API_KEY_INVALID'') \<longrightarrow>
            err = InvalidApiKeyError \<and>
            errorMessage_of err = js ''Invalid API key. Please check your settings.'')"
proof -
  note run = analyzeCurrentNote_failure [OF assms]
  have quiet: "notices (snd (snd (analyzeNote e (template (settings this ''mephistoPrompt'')) doc
        (ready_client k (geminiClient this))))) = []"
      "panel_states (snd (snd (analyzeNote e (template (settings this ''mephistoPrompt'')) doc
        (ready_client k (geminiClient this))))) = []"
    by (simp_all add: analyzeNote_quiet)
  have n: "notices (snd (analyzeCurrentNote e doc this)) =
      [Notice (js ''Analyzing with Mephisto...''),
       Notice (js ''Analysis failed: '' @ errorMessage_of err)]"
    using quiet(1) by (simp add: run notices_def)
  have p: "panel_states (snd (analyzeCurrentNote e doc this)) =
      [Rendered (contentEl (showLoading (lens_view this))),
       Rendered (contentEl (showError (errorMessage_of err) (showLoading (lens_view this))))]"
    using quiet(2) by (simp add: run panel_states_def)
  have v: "variants_present (showError (errorMessage_of err) (showLoading (lens_view this))) =
      {Some Failure}"
    by (simp add: variants_present_def showError_children)
  have c: "\<forall>m message.
      model (ready_client k (geminiClient this)) = Some m \<and>
      provider e m (fullPrompt (template (settings this ''mephistoPrompt'')) doc) =
        Rejects (Error message) \<and>
      str_includes message (js ''API_KEY_INVALID'') \<longrightarrow>
      err = InvalidApiKeyError \<and>
      errorMessage_of err = js ''Invalid API key. Please check your settings.''"
  proof (intro allI impI, elim conjE)
    fix m message
    assume that: "model (ready_client k (geminiClient this)) = Some m"
      "provider e m (fullPrompt (template (settings this ''mephistoPrompt'')) doc) =
        Rejects (Error message)"
      "str_includes message (js ''API_KEY_INVALID'')"
    show "err = InvalidApiKeyError \<and>
      errorMessage_of err = js ''Invalid API key. Please check your settings.''"
      using assms(6) that(3)
      by (auto simp: analyzeNote_rejected [OF that(1) assms(5) that(2)] InvalidApiKeyError_def
          errorMessage_of_def)
  qed
  have r: "snd (analyzeCurrentNote e doc this) =
      [RevealLeaf, Rendered (contentEl (showLoading (lens_view this))),
       Notice (js ''Analyzing with Mephisto...'')] @
      snd (snd (analyzeNote e (template (settings this ''mephistoPrompt'')) doc
                  (ready_client k (geminiClient this)))) @
      [ConsoleError (js ''Analysis error:'') err,
       Rendered (contentEl (showError (errorMessage_of err) (showLoading (lens_view this)))),
       Notice (js ''Analysis failed: '' @ errorMessage_of err)]"
    by (simp add: run)
  show ?thesis
    by (intro conjI) (rule r n p v c)+
qed

theorem analysis_failure_effects_witness:
  "[''geminiApiKey'' \<mapsto> js ''validkey'', ''mephistoPrompt'' \<mapsto> js ''prompt''] ''geminiApiKey'' =
     Some (js ''validkey'') \<and>
   js ''validkey'' \<noteq> [] \<and> \<not> whitespace_only (js ''validkey'') \<and>
   \<not> whitespace_only (js ''hello'') \<and>
   str_includes (js ''API_KEY_INVALID'') (js ''API_KEY_INVALID'') \<and>
   notices (snd (analyzeCurrentNote
     \<lparr>provider = (\<lambda>m p. Rejects (Error (js ''API_KEY_INVALID''))),
      renderer = (\<lambda>t. ([], None)), now = []\<rparr>
     (js ''hello'')
     \<lparr>settings = [''geminiApiKey'' \<mapsto> js ''validkey'', ''mephistoPrompt'' \<mapsto> js ''prompt''],
      geminiClient = new_GeminiClient,
      workspace = \<lparr>leaves = [], rightLeaf = True\<rparr>, data = None\<rparr>)) =
   [Notice (js ''Analyzing with Mephisto...''),
    Notice (js ''Analysis failed: '' @ js ''Invalid API key. Please check your settings.'')] \<and>
   panel_states (snd (analyzeCurrentNote
     \<lparr>provider = (\<lambda>m p. Rejects (Error (js ''API_KEY_INVALID''))),
      renderer = (\<lambda>t. ([], None)), now = []\<rparr>
     (js ''hello'')
     \<lparr>settings = [''geminiApiKey'' \<mapsto> js ''validkey'', ''mephistoPrompt'' \<mapsto> js ''prompt''],
      geminiClient = new_GeminiClient,
      workspace = \<lparr>leaves = [], rightLeaf = True\<rparr>, data = None\<rparr>)) =
   [Rendered (contentEl (showLoading onOpen)),
    Rendered (contentEl (showError (js ''Invalid API key. Please check your settings.'')
                           (showLoading onOpen)))]"
proof -
  let ?e = "\<lparr>provider = (\<lambda>m p. Rejects (Error (js ''API_KEY_INVALID''))),
      renderer = (\<lambda>t. ([], None)), now = []\<rparr>"
  let ?p = "\<lparr>settings = [''geminiApiKey'' \<mapsto> js ''validkey'', ''mephistoPrompt'' \<mapsto> js ''prompt''],
      geminiClient = new_GeminiClient,
      workspace = \<lparr>leaves = [], rightLeaf = True\<rparr>, data = None\<rparr>"
  let ?m = "GenerativeModel (js ''validkey'') (js ''gemini-1.5-flash'')"
  have s: "settings ?p ''geminiApiKey'' = Some (js ''validkey'')" by simp
  have n: "js ''validkey'' \<noteq> []" by (simp add: js_simps)
  have k: "\<not> whitespace_only (js ''validkey'')"
    by (simp add: js_simps whitespace_only_simps is_ws_def)
  have i: "isInitialized (geminiClient ?p) \<or> \<not> whitespace_only (js ''validkey'')"
    using k by simp
  have a: "panel_available ?p" by (simp add: panel_available_def)
  have d: "\<not> whitespace_only (js ''hello'')"
    by (simp add: js_simps whitespace_only_simps is_ws_def)
  have inc: "str_includes (js ''API_KEY_INVALID'') (js ''API_KEY_INVALID'')"
    by (simp add: js_simps)
  have l: "lens_view ?p = onOpen" by (simp add: lens_view_def)
  have mo: "model (ready_client (js ''validkey'') (geminiClient ?p)) = Some ?m"
    by (simp add: ready_client_def isInitialized_def new_GeminiClient_def initialize_key [OF k])
  have pr: "provider ?e ?m (fullPrompt (template (settings ?p ''mephistoPrompt'')) (js ''hello'')) =
      Rejects (Error (js ''API_KEY_INVALID''))"
    by simp
  have f: "fst (analyzeNote ?e (template (settings ?p ''mephistoPrompt'')) (js ''hello'')
      (ready_client (js ''validkey'') (geminiClient ?p))) = Inl InvalidApiKeyError"
    using inc analyzeNote_rejected [OF mo d pr] by (simp add: InvalidApiKeyError_def)
  note t = analysis_failure_effects [OF s n i a d f]
  note t2 = t [THEN conjunct2, THEN conjunct1]
  note t3 = t [THEN conjunct2, THEN conjunct2, THEN conjunct1]
  note t5 = t [THEN conjunct2, THEN conjunct2, THEN conjunct2, THEN conjunct2]
  from t5 mo pr inc have m: "errorMessage_of InvalidApiKeyError =
      js ''Invalid API key. Please check your settings.''"
    by blast
  show ?thesis
    using n k d inc t2 t3 by (simp add: l m)
qed

text \<open>
  C2 as stated fails: when the provider rejects with \<open>API_KEY_INVALID\<close>, the
  notice issued after the failure is not the message the panel shows but that
  message behind the prefix \<open>Analysis failed: \<close>.
\<close>

theorem invalid_key_notice_counterexample:
  "notices (snd (analyzeCurrentNote
     \<lparr>provider = (\<lambda>m p. Rejects (Error (js ''API_KEY_INVALID''))),
      renderer = (\<lambda>t. ([], None)), now = []\<rparr>
     (js ''hello'')
     \<lparr>settings = [''geminiApiKey'' \<mapsto> js ''validkey'', ''mephistoPrompt'' \<mapsto> js ''prompt''],
      geminiClient = new_GeminiClient,
      workspace = \<lparr>leaves = [], rightLeaf = True\<rparr>, data = None\<rparr>)) =
   [Notice (js ''Analyzing with Mephisto...''),
    Notice (js ''Analysis failed: Invalid API key. Please check your settings.'')] \<and>
   js ''Analysis failed: Invalid API key. Please check your settings.'' \<noteq>
   js ''Invalid API key. Please check your settings.''"
proof -
  let ?e = "\<lparr>provider = (\<lambda>m p. Rejects (Error (js ''API_KEY_INVALID''))),
      renderer = (\<lambda>t. ([], None)), now = []\<rparr>"
  let ?p = "\<lparr>settings = [''geminiApiKey'' \<mapsto> js ''validkey'', ''mephistoPrompt'' \<mapsto> js ''prompt''],
      geminiClient = new_GeminiClient,
      workspace = \<lparr>leaves = [], rightLeaf = True\<rparr>, data = None\<rparr>"
  let ?m = "GenerativeModel (js ''validkey'') (js ''gemini-1.5-flash'')"
  have s: "settings ?p ''geminiApiKey'' = Some (js ''validkey'')" by simp
  have n: "js ''validkey'' \<noteq> []" by (simp add: js_simps)
  have k: "\<not> whitespace_only (js ''validkey'')"
    by (simp add: js_simps whitespace_only_simps is_ws_def)
  have i: "isInitialized (geminiClient ?p) \<or> \<not> whitespace_only (js ''validkey'')"
    using k by simp
  have a: "panel_available ?p" by (simp add: panel_available_def)
  have d: "\<not> whitespace_only (js ''hello'')"
    by (simp add: js_simps whitespace_only_simps is_ws_def)
  have inc: "str_includes (js ''API_KEY_INVALID'') (js ''API_KEY_INVALID'')"
    by (simp add: js_simps)
  have mo: "model (ready_client (js ''validkey'') (geminiClient ?p)) = Some ?m"
    by (simp add: ready_client_def isInitialized_def new_GeminiClient_def initialize_key [OF k])
  have pr: "provider ?e ?m (fullPrompt (template (settings ?p ''mephistoPrompt'')) (js ''hello'')) =
      Rejects (Error (js ''API_KEY_INVALID''))"
    by simp
  have an: "analyzeNote ?e (template (settings ?p ''mephistoPrompt'')) (js ''hello'')
      (ready_client (js ''validkey'') (geminiClient ?p)) =
      (Inl (Error (js ''Invalid API key. Please check your settings.'')),
       ready_client (js ''validkey'') (geminiClient ?p),
       [GenerateContent ?m (fullPrompt (template (settings ?p ''mephistoPrompt'')) (js ''hello'')),
        ConsoleError (js ''Gemini API error:'') (Error (js ''API_KEY_INVALID''))])"
    using inc analyzeNote_rejected [OF mo d pr] by simp
  have f: "fst (analyzeNote ?e (template (settings ?p ''mephistoPrompt'')) (js ''hello'')
      (ready_client (js ''validkey'') (geminiClient ?p))) =
      Inl (Error (js ''Invalid API key. Please check your settings.''))"
    using an by simp
  have ap: "js ''Analysis failed: '' @ js ''Invalid API key. Please check your settings.'' =
      js ''Analysis failed: Invalid API key. Please check your settings.''"
    by (simp add: js_def)
  have ne: "js ''Analysis failed: Invalid API key. Please check your settings.'' \<noteq>
      js ''Invalid API key. Please check your settings.''"
    by (simp add: js_simps)
  have "notices (snd (analyzeCurrentNote ?e (js ''hello'') ?p)) =
      [Notice (js ''Analyzing with Mephisto...''),
       Notice (js ''Analysis failed: Invalid API key. Please check your settings.'')]"
    using an analyzeCurrentNote_failure [OF s n i a d f]
    by (simp add: notices_def errorMessage_of_def ap)
  with ne show ?thesis by simp
qed

section \<open>Properties of the panel and of the settings\<close>

lemma panel_step_children:
  "children (contentEl (panel_step e op v)) = children (contentEl (panel_step e op w))"
  by (cases op)
     (simp_all add: showWelcomeMessage_children showLoading_children showAnalysis_children
        showError_children)

lemma panel_step_variant: "variants_present (panel_step e op v) = {Some (variant_shown op)}"
  by (cases op)
     (simp_all add: variants_present_def showWelcomeMessage_children showLoading_children
        showAnalysis_children showError_children)

lemma panel_step_emptied:
  "panel_step e op (v\<lparr>contentEl := empty_el (contentEl v)\<rparr>) = panel_step e op v"
  by (cases op; cases "contentEl v")
     (simp_all add: showWelcomeMessage_def showLoading_def showAnalysis_def showError_def Let_def
        split: prod.splits)

lemma panel_run_snoc: "panel_run e (ops @ [op]) v = panel_step e op (panel_run e ops v)"
  by (simp add: panel_run_def)

lemma onOpen_variant: "variants_present onOpen = {Some Welcome}"
  by (simp add: onOpen_def variants_present_def showWelcomeMessage_children)

text \<open>
  C8: every operation of the panel gives the same view whether the content
  was emptied before or not, and leaves children that do not depend on what
  was rendered before; afterwards the renderings present are those of the
  operation's variant alone. So after any sequence of operations on a view
  that \<open>onOpen\<close> has set up, exactly one variant is present: that of the last
  operation, or the welcome message when there was none.
\<close>

theorem panel_shows_one_variant:
  "panel_step e op (v\<lparr>contentEl := empty_el (contentEl v)\<rparr>) = panel_step e op v \<and>
   children (contentEl (panel_step e op v)) = children (contentEl (panel_step e op w)) \<and>
   variants_present (panel_step e op v) = {Some (variant_shown op)} \<and>
   variants_present (panel_run e (ops @ [op]) v) = {Some (variant_shown op)} \<and>
   variants_present (panel_run e ops onOpen) = {Some (variant_shown (last (ShowWelcome # ops)))}"
proof -
  have seq: "variants_present (panel_run e ops onOpen) =
      {Some (variant_shown (last (ShowWelcome # ops)))}"
  proof (cases ops rule: rev_cases)
    case Nil
    then show ?thesis by (simp add: panel_run_def onOpen_variant)
  next
    case (snoc xs x)
    then show ?thesis by (simp add: panel_run_snoc panel_step_variant)
  qed
  show ?thesis
    by (intro conjI)
       (rule panel_step_emptied panel_step_children panel_step_variant seq
          panel_run_snoc [THEN arg_cong [where f = variants_present], THEN trans])+
qed

lemma own_writes_defaults: "own_writes DEFAULT_SETTINGS = DEFAULT_SETTINGS"
  by (rule ext) (simp add: own_writes_def DEFAULT_SETTINGS_def)

lemma loadSettings_merge:
  "settings (loadSettings this) =
     DEFAULT_SETTINGS ++ (case data this of None \<Rightarrow> Map.empty | Some b \<Rightarrow> own_writes b)"
  by (simp add: loadSettings_def loadData_def own_writes_defaults split: option.splits)

text \<open>
  C4: after \<open>saveSettings\<close> with the settings \<open>cfg\<close>, \<open>loadSettings\<close> gives \<open>cfg\<close>'s
  value for every field present in \<open>cfg\<close>; and for every persisted blob, a
  field absent from it has its default value: the loaded settings are the
  defaults overridden field by field by what the blob writes. A field is a
  data property of the object: the name \<open>__proto__\<close>, which assignment hands to
  the inherited setter, is none, and a blob that carries it loads as if it
  did not.
\<close>

theorem settings_round_trip:
  assumes "f \<in> dom cfg" and "f \<noteq> ''__proto__''" and "g \<notin> dom blob"
  shows "settings (loadSettings (saveSettings (this\<lparr>settings := cfg\<rparr>))) f = cfg f \<and>
         settings (loadSettings (this\<lparr>data := Some blob\<rparr>)) g = DEFAULT_SETTINGS g \<and>
         settings (loadSettings (this\<lparr>data := Some blob\<rparr>)) =
           DEFAULT_SETTINGS ++ own_writes blob \<and>
         settings (loadSettings (this\<lparr>data := Some blob\<rparr>)) ''__proto__'' = None \<and>
         settings (loadSettings (this\<lparr>data := None\<rparr>)) = DEFAULT_SETTINGS"
proof -
  have d: "DEFAULT_SETTINGS ''__proto__'' = None"
    by (simp add: DEFAULT_SETTINGS_def)
  have c1: "settings (loadSettings (saveSettings (this\<lparr>settings := cfg\<rparr>))) f = cfg f"
    using assms(1,2)
    by (auto simp: loadSettings_merge saveSettings_def saveData_def own_writes_def map_add_def
        split: option.splits)
  have c2: "settings (loadSettings (this\<lparr>data := Some blob\<rparr>)) g = DEFAULT_SETTINGS g"
    using assms(3)
    by (auto simp: loadSettings_merge own_writes_def map_add_def split: option.splits)
  have c3: "settings (loadSettings (this\<lparr>data := Some blob\<rparr>)) =
      DEFAULT_SETTINGS ++ own_writes blob"
    by (simp add: loadSettings_merge)
  have c4: "settings (loadSettings (this\<lparr>data := Some blob\<rparr>)) ''__proto__'' = None"
    by (simp add: loadSettings_merge own_writes_def map_add_def d)
  have c5: "settings (loadSettings (this\<lparr>data := None\<rparr>)) = DEFAULT_SETTINGS"
    by (simp add: loadSettings_merge)
  show ?thesis
    by (intro conjI) (rule c1 c2 c3 c4 c5)+
qed

theorem settings_round_trip_witness:
  "''geminiApiKey'' \<in> dom [''geminiApiKey'' \<mapsto> js ''k'', ''__proto__'' \<mapsto> js ''x''] \<and>
   ''geminiApiKey'' \<noteq> ''__proto__'' \<and>
   ''mephistoPrompt'' \<notin> dom [''geminiApiKey'' \<mapsto> js ''k'', ''__proto__'' \<mapsto> js ''x''] \<and>
   settings (loadSettings (saveSettings
     (\<lparr>settings = Map.empty, geminiClient = new_GeminiClient,
       workspace = \<lparr>leaves = [], rightLeaf = True\<rparr>, data = None\<rparr>
      \<lparr>settings := [''geminiApiKey'' \<mapsto> js ''k'', ''__proto__'' \<mapsto> js ''x'']\<rparr>)))
     ''geminiApiKey'' = Some (js ''k'') \<and>
   settings (loadSettings
     (\<lparr>settings = Map.empty, geminiClient = new_GeminiClient,
       workspace = \<lparr>leaves = [], rightLeaf = True\<rparr>, data = None\<rparr>
      \<lparr>data := Some [''geminiApiKey'' \<mapsto> js ''k'', ''__proto__'' \<mapsto> js ''x'']\<rparr>))
     ''mephistoPrompt'' = DEFAULT_SETTINGS ''mephistoPrompt'' \<and>
   settings (loadSettings
     (\<lparr>settings = Map.empty, geminiClient = new_GeminiClient,
       workspace = \<lparr>leaves = [], rightLeaf = True\<rparr>, data = None\<rparr>
      \<lparr>data := Some [''geminiApiKey'' \<mapsto> js ''k'', ''__proto__'' \<mapsto> js ''x'']\<rparr>))
     ''__proto__'' = None"
proof -
  have f: "''geminiApiKey'' \<in> dom [''geminiApiKey'' \<mapsto> js ''k'', ''__proto__'' \<mapsto> js ''x'']"
    by simp
  have n: "''geminiApiKey'' \<noteq> ''__proto__''" by simp
  have g: "''mephistoPrompt'' \<notin> dom [''geminiApiKey'' \<mapsto> js ''k'', ''__proto__'' \<mapsto> js ''x'']"
    by simp
  note t = settings_round_trip [OF f n g,
      of "\<lparr>settings = Map.empty, geminiClient = new_GeminiClient,
           workspace = \<lparr>leaves = [], rightLeaf = True\<rparr>, data = None\<rparr>"]
  show ?thesis
    using t [THEN conjunct1] t [THEN conjunct2, THEN conjunct1]
      t [THEN conjunct2, THEN conjunct2, THEN conjunct2, THEN conjunct1]
    by simp
qed

end
